theory Spec2Isabelle
  imports Main "HOL-Library.AList" "HOL-Library.Char_ord" "HOL-Library.List_Lexorder"
    "HOL-Library.Product_Lexorder" "HOL-Library.Multiset"
begin

section \<open>Tables\<close>

text \<open>
  \<^verbatim>\<open>app.py\<close> is a script over one pandas table. A cell of the table is missing
  (\<open>NaN\<close>, which also stands for pandas' \<open>NaT\<close>), a number, a text or a date. The numbers
  of the crash data (years, days, fatality counts) are whole numbers, so \<open>Num\<close> carries an
  \<open>int\<close>; fractional numbers are not modelled. A row maps column names to cells and is
  kept as an association list; the table keeps its column names beside its rows, since a
  table without rows still has columns.

  The pandas and seaborn calls of the script are modelled by what their documentation
  promises and, where the documentation leaves the outcome open, by what pandas 2.2
  computes. pandas keeps a column of whole numbers as 64-bit integers, whose arithmetic
  wraps around; \<open>int64\<close> is that wrap-around. A numeric column with a missing cell is kept
  in floating point, which is exact as long as the whole numbers involved stay below
  \<open>2 ^ 53\<close> in absolute value; beyond that the model follows the integer column.
\<close>

datatype cell = NaN | Num int | Str string | Timestamp int int int

datatype error = KeyError string | TypeError

type_synonym row = "(string \<times> cell) list"

definition int64 :: "int \<Rightarrow> int" where
  "int64 k = (k + 2 ^ 63) mod 2 ^ 64 - 2 ^ 63"

record dataframe =
  columns :: "string list"
  rows :: "row list"

definition cell_at :: "row \<Rightarrow> string \<Rightarrow> cell" where
  "cell_at r c = (case map_of r c of Some v \<Rightarrow> v | None \<Rightarrow> NaN)"

text \<open>\<^verbatim>\<open>df[c]\<close> as a series, for a column that exists.\<close>

definition column :: "dataframe \<Rightarrow> string \<Rightarrow> cell list" where
  "column df c = map (\<lambda>r. cell_at r c) (rows df)"

text \<open>\<^verbatim>\<open>df[c] = ...\<close>: the column is overwritten, or added as the last one.\<close>

definition assign :: "string \<Rightarrow> (row \<Rightarrow> cell) \<Rightarrow> dataframe \<Rightarrow> dataframe" where
  "assign c f df =
     \<lparr>columns = (if c \<in> set (columns df) then columns df else columns df @ [c]),
      rows = map (\<lambda>r. AList.update c (f r) r) (rows df)\<rparr>"

text \<open>\<^verbatim>\<open>df.dropna(subset=[c], inplace=True)\<close>\<close>

definition dropna :: "string \<Rightarrow> dataframe \<Rightarrow> dataframe" where
  "dropna c df = df\<lparr>rows := filter (\<lambda>r. cell_at r c \<noteq> NaN) (rows df)\<rparr>"

section \<open>Loading and date normalisation (\<open>load_data\<close>)\<close>

definition month_map :: "(string \<times> int) list" where
  "month_map =
     [(''January'', 1), (''February'', 2), (''March'', 3), (''April'', 4), (''May'', 5),
      (''June'', 6), (''July'', 7), (''August'', 8), (''September'', 9), (''October'', 10),
      (''November'', 11), (''December'', 12)]"

text \<open>
  \<^verbatim>\<open>Series.map(d)\<close> with a dictionary \<open>d\<close>: a value that is not a key of \<open>d\<close> becomes
  \<open>NaN\<close>. The keys of \<open>month_map\<close> are texts, so a number is never a key.
\<close>

definition series_map :: "(string \<times> int) list \<Rightarrow> cell \<Rightarrow> cell" where
  "series_map d c =
     (case c of
        Str s \<Rightarrow> (case map_of d s of Some n \<Rightarrow> Num n | None \<Rightarrow> NaN)
      | _ \<Rightarrow> NaN)"

text \<open>\<^verbatim>\<open>Series.fillna(v)\<close>, cell by cell.\<close>

definition fillna :: "cell \<Rightarrow> cell \<Rightarrow> cell" where
  "fillna v c = (if c = NaN then v else c)"

text \<open>
  \<^verbatim>\<open>pd.to_datetime(df[['Year', 'Month', 'Day']], errors='coerce')\<close> first coerces each of
  the three columns with \<^verbatim>\<open>pd.to_numeric(..., errors='coerce')\<close>. A number stays what it
  is. A text is read as a decimal number: blanks around it are skipped, a sign may come
  first, then come digits with at most one decimal point among them (one digit at least),
  then an exponent (\<open>e\<close> or \<open>E\<close>, a sign or none, digits) or nothing. \<open>whole_of_text\<close> is
  the value of such a text when that value is a whole number, as it is for \<open>1950\<close>,
  \<open>1950.0\<close> and \<open>1.95e3\<close>. A text that is no number, a date and a missing cell are coerced
  to \<open>NaN\<close>. A text whose value has a fractional part has no counterpart among the cells
  modelled here and is taken as \<open>NaN\<close> too.
\<close>

definition digit_of :: "char \<Rightarrow> nat option" where
  "digit_of ch =
     (let k = (of_char ch :: nat) in if 48 \<le> k \<and> k \<le> 57 then Some (k - 48) else None)"

definition is_digit :: "char \<Rightarrow> bool" where
  "is_digit ch = (digit_of ch \<noteq> None)"

definition is_space :: "char \<Rightarrow> bool" where
  "is_space ch = (let k = (of_char ch :: nat) in k = 32 \<or> (9 \<le> k \<and> k \<le> 13))"

definition digits_value :: "string \<Rightarrow> nat" where
  "digits_value s =
     foldl (\<lambda>acc ch. 10 * acc + (case digit_of ch of Some k \<Rightarrow> k | None \<Rightarrow> 0)) 0 s"

definition strip :: "string \<Rightarrow> string" where
  "strip s = rev (dropWhile is_space (rev (dropWhile is_space s)))"

definition split_sign :: "string \<Rightarrow> bool \<times> string" where
  "split_sign s =
     (case s of
        [] \<Rightarrow> (False, [])
      | ch # t \<Rightarrow>
          if ch = CHR ''-'' then (True, t) else if ch = CHR ''+'' then (False, t) else (False, s))"

definition exponent_of :: "string \<Rightarrow> int option" where
  "exponent_of s =
     (case s of
        [] \<Rightarrow> Some 0
      | ch # t \<Rightarrow>
          if ch = CHR ''e'' \<or> ch = CHR ''E''
          then (let (neg, v) = split_sign t
                in if v \<noteq> [] \<and> list_all is_digit v
                   then Some (if neg then - int (digits_value v) else int (digits_value v))
                   else None)
          else None)"

definition whole_of_text :: "string \<Rightarrow> int option" where
  "whole_of_text s =
     (let (neg, t) = split_sign (strip s);
          ip = takeWhile is_digit t;
          t1 = dropWhile is_digit t;
          (fp, t2) = (case t1 of
                        [] \<Rightarrow> ([], [])
                      | ch # u \<Rightarrow>
                          if ch = CHR ''.'' then (takeWhile is_digit u, dropWhile is_digit u)
                          else ([], t1))
      in if ip @ fp = [] then None
         else (case exponent_of t2 of
                 None \<Rightarrow> None
               | Some e \<Rightarrow>
                   let n = int (digits_value (ip @ fp));
                       sc = e - int (length fp);
                       sg = (if neg then - 1 else 1)
                   in if 0 \<le> sc then Some (sg * n * 10 ^ nat sc)
                      else if n mod 10 ^ nat (- sc) = 0 then Some (sg * (n div 10 ^ nat (- sc)))
                      else None))"

definition to_numeric :: "cell \<Rightarrow> cell" where
  "to_numeric c =
     (case c of
        Num n \<Rightarrow> Num n
      | Str s \<Rightarrow> (case whole_of_text s of Some n \<Rightarrow> Num n | None \<Rightarrow> NaN)
      | _ \<Rightarrow> NaN)"

text \<open>The Gregorian calendar, and the dates a pandas \<open>Timestamp\<close> (64-bit nanoseconds) holds:
  1677-09-22 to 2262-04-11.\<close>

definition is_leap :: "int \<Rightarrow> bool" where
  "is_leap y = (if y mod 100 = 0 then y mod 400 = 0 else y mod 4 = 0)"

definition days_in_month :: "int \<Rightarrow> int \<Rightarrow> int" where
  "days_in_month y m =
     (if m = 2 then (if is_leap y then 29 else 28)
      else if m = 4 \<or> m = 6 \<or> m = 9 \<or> m = 11 then 30
      else 31)"

definition valid_date :: "int \<Rightarrow> int \<Rightarrow> int \<Rightarrow> bool" where
  "valid_date y m d = (1 \<le> m \<and> m \<le> 12 \<and> 1 \<le> d \<and> d \<le> days_in_month y m)"

definition in_bounds :: "int \<Rightarrow> int \<Rightarrow> int \<Rightarrow> bool" where
  "in_bounds y m d =
     (let k = y * 10000 + m * 100 + d in 16770922 \<le> k \<and> k \<le> 22620411)"

text \<open>
  From the three numeric columns pandas computes the number
  \<open>year * 10000 + month * 100 + day\<close> and parses its decimal digits with the format
  \<^verbatim>\<open>%Y%m%d\<close>; with \<^verbatim>\<open>errors='coerce'\<close> a number that does not parse gives \<open>NaT\<close>. The date
  therefore is what the digits of that number spell, which is the date of the three cells
  when the year has four digits and the day lies between 1 and 99, and can be another date
  otherwise.

  \<open>strptime_ymd k\<close> is the parse of the digits of \<open>k\<close>. The year takes four digits, the
  month two digits (01 to 12) or one (1 to 9), the day two digits (01 to 31) or one
  (1 to 9), two digits being tried first, and nothing may be left over. So eight digits
  are read as YYYYMMDD; seven digits as YYYYMMD, and as YYYYMDD if that fails; six digits
  as YYYYMD; a negative number and any other number of digits do not parse. The
  year, month and day that were read must then be a calendar date that a \<open>Timestamp\<close>
  holds.
\<close>

definition date_or_nat :: "int \<Rightarrow> int \<Rightarrow> int \<Rightarrow> cell" where
  "date_or_nat y m d = (if valid_date y m d \<and> in_bounds y m d then Timestamp y m d else NaN)"

definition strptime_ymd :: "int \<Rightarrow> cell" where
  "strptime_ymd k =
     (if 10000000 \<le> k \<and> k \<le> 99999999
      then date_or_nat (k div 10000) (k div 100 mod 100) (k mod 100)
      else if 1000000 \<le> k \<and> k \<le> 9999999
      then (if 1 \<le> k div 10 mod 100 \<and> k div 10 mod 100 \<le> 12 \<and> 1 \<le> k mod 10
            then date_or_nat (k div 1000) (k div 10 mod 100) (k mod 10)
            else if 1 \<le> k div 100 mod 10 \<and> 1 \<le> k mod 100 \<and> k mod 100 \<le> 31
            then date_or_nat (k div 1000) (k div 100 mod 10) (k mod 100)
            else NaN)
      else if 100000 \<le> k \<and> k \<le> 999999
      then (if 1 \<le> k div 10 mod 10 \<and> 1 \<le> k mod 10
            then date_or_nat (k div 100) (k div 10 mod 10) (k mod 10)
            else NaN)
      else NaN)"

definition to_datetime :: "cell \<Rightarrow> cell \<Rightarrow> cell \<Rightarrow> cell" where
  "to_datetime cy cm cd =
     (case (to_numeric cy, to_numeric cm, to_numeric cd) of
        (Num y, Num m, Num d) \<Rightarrow> strptime_ymd (int64 (y * 10000 + m * 100 + d))
      | _ \<Rightarrow> NaN)"

text \<open>\<^verbatim>\<open>.dt.year\<close> and \<^verbatim>\<open>.dt.month\<close>\<close>

definition dt_year :: "cell \<Rightarrow> cell" where
  "dt_year c = (case c of Timestamp y m d \<Rightarrow> Num y | _ \<Rightarrow> NaN)"

definition dt_month :: "cell \<Rightarrow> cell" where
  "dt_month c = (case c of Timestamp y m d \<Rightarrow> Num m | _ \<Rightarrow> NaN)"

text \<open>
  \<open>load_data\<close> (lines 36 to 54). The table read from the CSV file is the argument. The
  result is the table returned together with the messages shown by \<^verbatim>\<open>st.error\<close>.
  \<^verbatim>\<open>df['Day'].fillna(1, inplace=True)\<close> fills the column of \<open>df\<close> itself, as pandas 2.x
  documents for a column obtained without a copy.
\<close>

definition load_data :: "dataframe \<Rightarrow> dataframe \<times> string list" where
  "load_data df =
     (if list_all (\<lambda>c. c \<in> set (columns df)) [''Year'', ''Month'', ''Day'']
      then
        let df = assign ''Month'' (\<lambda>r. series_map month_map (cell_at r ''Month'')) df;
            df = assign ''Day'' (\<lambda>r. fillna (Num 1) (cell_at r ''Day'')) df;
            df = assign ''Date''
                   (\<lambda>r. to_datetime (cell_at r ''Year'') (cell_at r ''Month'') (cell_at r ''Day'')) df;
            df = dropna ''Date'' df;
            df = assign ''Year'' (\<lambda>r. dt_year (cell_at r ''Date'')) df;
            df = assign ''Month'' (\<lambda>r. dt_month (cell_at r ''Date'')) df
        in (df, [])
      else (df, [''Year, Month, or Day column is missing from the dataset.'']))"

section \<open>Filtering (lines 71 to 75)\<close>

text \<open>
  The three sidebar widgets (lines 60 to 68) belong to the presentation layer: what the
  user chose there is the argument \<open>sel\<close>.
\<close>

record selection =
  selected_year :: "int \<times> int"
  selected_country :: string
  selected_airline :: string

text \<open>\<^verbatim>\<open>df[mask]\<close> for a mask that is computed row by row.\<close>

definition where_rows :: "(row \<Rightarrow> bool) \<Rightarrow> dataframe \<Rightarrow> dataframe" where
  "where_rows p df = df\<lparr>rows := filter p (rows df)\<rparr>"

text \<open>
  Ordering a cell against a number (\<^verbatim>\<open>>=\<close>, \<^verbatim>\<open><=\<close>) and adding cells up work on numbers
  and missing cells; a text or a date in the column makes pandas raise.
\<close>

definition numeric :: "cell \<Rightarrow> bool" where
  "numeric c = (case c of NaN \<Rightarrow> True | Num n \<Rightarrow> True | _ \<Rightarrow> False)"

definition year_between :: "int \<Rightarrow> int \<Rightarrow> cell \<Rightarrow> bool" where
  "year_between lo hi c = (case c of Num y \<Rightarrow> lo \<le> y \<and> y \<le> hi | _ \<Rightarrow> False)"

definition filtered_df :: "dataframe \<Rightarrow> selection \<Rightarrow> error + dataframe" where
  "filtered_df df sel =
     (if ''Year'' \<notin> set (columns df) then Inl (KeyError ''Year'')
      else if \<not> list_all numeric (column df ''Year'') then Inl TypeError
      else
        let f = where_rows
                  (\<lambda>r. year_between (fst (selected_year sel)) (snd (selected_year sel))
                         (cell_at r ''Year'')) df
        in
        if selected_country sel \<noteq> ''All'' \<and> ''Country/Region'' \<notin> set (columns f)
        then Inl (KeyError ''Country/Region'')
        else
          let f = (if selected_country sel \<noteq> ''All''
                   then where_rows (\<lambda>r. cell_at r ''Country/Region'' = Str (selected_country sel)) f
                   else f)
          in
          if selected_airline sel \<noteq> ''All'' \<and> ''Operator'' \<notin> set (columns f)
          then Inl (KeyError ''Operator'')
          else
            Inr (if selected_airline sel \<noteq> ''All''
                 then where_rows (\<lambda>r. cell_at r ''Operator'' = Str (selected_airline sel)) f
                 else f))"

section \<open>Metric cards and data preview (lines 82 to 101)\<close>

definition bind_result :: "error + 'a \<Rightarrow> ('a \<Rightarrow> error + 'b) \<Rightarrow> error + 'b" where
  "bind_result m k = (case m of Inl e \<Rightarrow> Inl e | Inr x \<Rightarrow> k x)"

text \<open>\<^verbatim>\<open>df[c]\<close>: a column that does not exist raises \<open>KeyError\<close>.\<close>

definition getitem :: "dataframe \<Rightarrow> string \<Rightarrow> error + cell list" where
  "getitem df c = (if c \<in> set (columns df) then Inr (column df c) else Inl (KeyError c))"

text \<open>
  \<^verbatim>\<open>Series.sum()\<close> skips missing cells. The sum of a column of 64-bit integers is a
  64-bit integer and wraps around. On texts the sum, or the \<^verbatim>\<open>'{:,}'\<close> format applied to it
  on line 87, raises; the model does not tell the two exceptions apart.
\<close>

definition series_sum :: "cell list \<Rightarrow> error + int" where
  "series_sum xs =
     (if list_all numeric xs
      then Inr (int64 (sum_list (map (\<lambda>c. case c of Num n \<Rightarrow> n | _ \<Rightarrow> 0) xs)))
      else Inl TypeError)"

text \<open>\<^verbatim>\<open>Series.unique()\<close>: the values in the order of their first appearance.\<close>

fun unique_from :: "'a list \<Rightarrow> 'a list \<Rightarrow> 'a list" where
  "unique_from seen [] = []"
| "unique_from seen (x # xs) =
     (if x \<in> set seen then unique_from seen xs else x # unique_from (x # seen) xs)"

definition unique :: "'a list \<Rightarrow> 'a list" where
  "unique xs = unique_from [] xs"

text \<open>\<^verbatim>\<open>Series.nunique()\<close> counts the distinct values that are not missing.\<close>

definition nunique :: "cell list \<Rightarrow> nat" where
  "nunique xs = length (unique (filter (\<lambda>c. c \<noteq> NaN) xs))"

record cards =
  total_crashes :: nat
  total_fatalities :: int
  countries_affected :: nat
  airlines_involved :: nat

definition metric_cards :: "dataframe \<Rightarrow> error + cards" where
  "metric_cards f =
     bind_result (getitem f ''Fatalities (air)'') (\<lambda>air.
     bind_result (series_sum air) (\<lambda>total.
     bind_result (getitem f ''Country/Region'') (\<lambda>countries.
     bind_result (getitem f ''Operator'') (\<lambda>operators.
       Inr \<lparr>total_crashes = length (rows f), total_fatalities = total,
            countries_affected = nunique countries, airlines_involved = nunique operators\<rparr>))))"

text \<open>\<^verbatim>\<open>df[[c1, ..., cn]]\<close>: the listed columns of every row.\<close>

definition preview_columns :: "string list" where
  "preview_columns =
     [''Date'', ''Country/Region'', ''Operator'', ''Aircraft Manufacturer'', ''Fatalities (air)'']"

definition data_preview :: "dataframe \<Rightarrow> error + row list" where
  "data_preview f =
     (case filter (\<lambda>c. c \<notin> set (columns f)) preview_columns of
        [] \<Rightarrow> Inr (map (\<lambda>r. map (\<lambda>c. (c, cell_at r c)) preview_columns) (rows f))
      | c # cs \<Rightarrow> Inl (KeyError c))"

section \<open>Charts (lines 104 to 155)\<close>

text \<open>
  \<^verbatim>\<open>df.groupby(c).size()\<close>: one entry for every value that occurs in the column, with the
  number of rows that hold it; missing keys are left out and the keys are sorted (numbers
  ascending, texts alphabetically; in a mixed column the numbers come first).
\<close>

definition cell_key :: "cell \<Rightarrow> nat \<times> int \<times> string" where
  "cell_key c =
     (case c of
        Num n \<Rightarrow> (0, n, [])
      | Str s \<Rightarrow> (1, 0, s)
      | Timestamp y m d \<Rightarrow> (2, y * 10000 + m * 100 + d, [])
      | NaN \<Rightarrow> (3, 0, []))"

definition counts :: "cell list \<Rightarrow> (cell \<times> nat) list" where
  "counts xs = map (\<lambda>k. (k, count_list xs k)) (unique (filter (\<lambda>c. c \<noteq> NaN) xs))"

definition groupby_size :: "dataframe \<Rightarrow> string \<Rightarrow> error + (cell \<times> nat) list" where
  "groupby_size df c =
     bind_result (getitem df c) (\<lambda>xs. Inr (sort_key (\<lambda>p. cell_key (fst p)) (counts xs)))"

text \<open>
  \<^verbatim>\<open>Series.value_counts()\<close> counts the values that are not missing and then orders the
  counts with \<^verbatim>\<open>sort_values(ascending=False)\<close>. That sort runs with pandas' default kind
  \<^verbatim>\<open>'quicksort'\<close>, which the pandas documentation lists as not stable: the script does not
  fix the order in which equal counts come out. The sort is therefore a parameter here.
\<close>

definition value_counts ::
  "((cell \<times> nat) list \<Rightarrow> (cell \<times> nat) list) \<Rightarrow> cell list \<Rightarrow> (cell \<times> nat) list" where
  "value_counts sort_values xs = sort_values (counts xs)"

definition yearly_trend :: "dataframe \<Rightarrow> error + (cell \<times> nat) list" where
  "yearly_trend df = groupby_size df ''Year''"

definition top_countries ::
  "((cell \<times> nat) list \<Rightarrow> (cell \<times> nat) list) \<Rightarrow> dataframe \<Rightarrow> error + (cell \<times> nat) list" where
  "top_countries sort_values df =
     bind_result (getitem df ''Country/Region'') (\<lambda>xs.
       Inr (take 10 (value_counts sort_values xs)))"

text \<open>
  \<^verbatim>\<open>sns.regplot(x=..., y=...)\<close> runs with its default \<^verbatim>\<open>dropna=True\<close>: an observation with
  a missing \<open>x\<close> or \<open>y\<close> is removed before anything is drawn or fitted. The result here is
  the list of observations that are left; the drawing and the fit of the regression line
  are not modelled.
\<close>

definition regplot :: "dataframe \<Rightarrow> error + (cell \<times> cell) list" where
  "regplot df =
     bind_result (getitem df ''Fatalities (air)'') (\<lambda>x.
     bind_result (getitem df ''Ground'') (\<lambda>y.
       Inr (filter (\<lambda>(a, b). a \<noteq> NaN \<and> b \<noteq> NaN) (zip x y))))"

definition monthly :: "dataframe \<Rightarrow> error + (cell \<times> nat) list" where
  "monthly df = groupby_size df ''Month''"

section \<open>The page (lines 71 to 155)\<close>

text \<open>
  The script runs from top to bottom and stops at the first exception. \<open>df\<close> is the table
  that \<open>load_data\<close> returned.
\<close>

record page =
  metric_row :: cards
  preview :: "row list"
  yearly_chart :: "(cell \<times> nat) list"
  countries_chart :: "(cell \<times> nat) list"
  correlation_chart :: "(cell \<times> cell) list"
  monthly_chart :: "(cell \<times> nat) list"

definition dashboard ::
  "((cell \<times> nat) list \<Rightarrow> (cell \<times> nat) list) \<Rightarrow> dataframe \<Rightarrow> selection \<Rightarrow> error + page" where
  "dashboard sort_values df sel =
     bind_result (filtered_df df sel) (\<lambda>f.
     bind_result (metric_cards f) (\<lambda>m.
     bind_result (data_preview f) (\<lambda>p.
     bind_result (yearly_trend df) (\<lambda>y.
     bind_result (top_countries sort_values df) (\<lambda>t.
     bind_result (regplot df) (\<lambda>c.
     bind_result (monthly df) (\<lambda>mo.
       Inr \<lparr>metric_row = m, preview = p, yearly_chart = y, countries_chart = t,
            correlation_chart = c, monthly_chart = mo\<rparr>)))))))"

section \<open>A row-by-row view of \<open>load_data\<close>\<close>

text \<open>
  \<open>load_data\<close> works column by column. Seen from one raw row \<open>r\<close>, it assembles the date
  \<open>assembled_date r\<close>, keeps the row if that date is not missing, and then holds
  \<open>normalised r\<close>. Both are derived from the definition above (\<open>load_rows\<close> below), and
  serve to state what happens to single records.
\<close>

definition assembled_date :: "row \<Rightarrow> cell" where
  "assembled_date r =
     to_datetime (cell_at r ''Year'') (series_map month_map (cell_at r ''Month''))
       (fillna (Num 1) (cell_at r ''Day''))"

definition normalised :: "row \<Rightarrow> row" where
  "normalised r =
     AList.update ''Month'' (dt_month (assembled_date r))
       (AList.update ''Year'' (dt_year (assembled_date r))
         (AList.update ''Date'' (assembled_date r)
           (AList.update ''Day'' (fillna (Num 1) (cell_at r ''Day''))
             (AList.update ''Month'' (series_map month_map (cell_at r ''Month'')) r))))"

section \<open>Sample tables\<close>

text \<open>Small tables on which the theorems below are evaluated.\<close>

definition crashes_without_day :: dataframe where
  "crashes_without_day =
     \<lparr>columns = [''Year'', ''Month'', ''Country/Region'', ''Operator'', ''Fatalities (air)''],
      rows =
        [[(''Year'', Num 1940), (''Month'', Str ''March''), (''Country/Region'', Str ''Peru''),
          (''Operator'', Str ''Faucett''), (''Fatalities (air)'', Num 7)],
         [(''Year'', Num 1952), (''Month'', Str ''July''), (''Country/Region'', Str ''Chile''),
          (''Operator'', Str ''LAN''), (''Fatalities (air)'', Num 12)]]\<rparr>"


definition numeric_months :: dataframe where
  "numeric_months =
     \<lparr>columns = [''Year'', ''Month'', ''Day''],
      rows =
        [[(''Year'', Num 2000), (''Month'', Num 3), (''Day'', Num 15)],
         [(''Year'', Num 2001), (''Month'', Str ''12''), (''Day'', Num 25)]]\<rparr>"

definition crash_without_day_value :: dataframe where
  "crash_without_day_value =
     \<lparr>columns = [''Year'', ''Month'', ''Day'', ''Operator''],
      rows =
        [[(''Year'', Num 1958), (''Month'', Str ''August''), (''Day'', Num 14),
          (''Operator'', Str ''KLM'')],
         [(''Year'', Num 1960), (''Month'', Str ''March''), (''Day'', NaN),
          (''Operator'', Str ''LAN'')]]\<rparr>"

definition raw_crashes :: dataframe where
  "raw_crashes =
     \<lparr>columns = [''Year'', ''Month'', ''Day'', ''Country/Region'', ''Operator'',
                 ''Aircraft Manufacturer'', ''Fatalities (air)'', ''Ground''],
      rows =
        [[(''Year'', Num 1949), (''Month'', Str ''May''), (''Day'', Num 3),
          (''Country/Region'', Str ''Peru''), (''Operator'', Str ''Faucett''),
          (''Aircraft Manufacturer'', Str ''Douglas''), (''Fatalities (air)'', Num 4),
          (''Ground'', Num 0)],
         [(''Year'', Num 1950), (''Month'', Str ''March''), (''Day'', Num 12),
          (''Country/Region'', Str ''Peru''), (''Operator'', Str ''Faucett''),
          (''Aircraft Manufacturer'', Str ''Douglas''), (''Fatalities (air)'', Num 7),
          (''Ground'', Num 2)],
         [(''Year'', Num 1955), (''Month'', Str ''March''), (''Day'', NaN),
          (''Country/Region'', Str ''peru''), (''Operator'', Str ''LAN''),
          (''Aircraft Manufacturer'', NaN), (''Fatalities (air)'', NaN),
          (''Ground'', Num 30)],
         [(''Year'', Num 1960), (''Month'', Str ''July''), (''Day'', Num 4),
          (''Country/Region'', Str ''Chile''), (''Operator'', Str ''LAN''),
          (''Aircraft Manufacturer'', Str ''Boeing''), (''Fatalities (air)'', Num 12),
          (''Ground'', NaN)],
         [(''Year'', Num 1961), (''Month'', Str ''July''), (''Day'', Num 9),
          (''Country/Region'', NaN), (''Operator'', Str ''Faucett''),
          (''Aircraft Manufacturer'', Str ''Boeing''), (''Fatalities (air)'', Num 1),
          (''Ground'', Num 5)]]\<rparr>"

definition crashes :: dataframe where
  "crashes = fst (load_data raw_crashes)"

definition fifties :: selection where
  "fifties = \<lparr>selected_year = (1950, 1960), selected_country = ''All'', selected_airline = ''All''\<rparr>"

definition fifties_view :: dataframe where
  "fifties_view =
     crashes\<lparr>rows := filter (\<lambda>r. year_between 1950 1960 (cell_at r ''Year'')) (rows crashes)\<rparr>"

definition ten_crashes :: dataframe where
  "ten_crashes =
     \<lparr>columns = [''Fatalities (air)'', ''Ground''],
      rows =
        [[(''Fatalities (air)'', Num 4), (''Ground'', Num 0)],
         [(''Fatalities (air)'', Num 7), (''Ground'', Num 2)],
         [(''Fatalities (air)'', Num 0), (''Ground'', NaN)],
         [(''Fatalities (air)'', Num 12), (''Ground'', Num 0)],
         [(''Fatalities (air)'', Num 1), (''Ground'', Num 5)],
         [(''Fatalities (air)'', Num 25), (''Ground'', Num 0)],
         [(''Fatalities (air)'', Num 3), (''Ground'', Num 0)],
         [(''Fatalities (air)'', Num 9), (''Ground'', NaN)],
         [(''Fatalities (air)'', Num 60), (''Ground'', Num 1)],
         [(''Fatalities (air)'', Num 2), (''Ground'', Num 0)]]\<rparr>"

definition peru_fifties :: selection where
  "peru_fifties =
     \<lparr>selected_year = (1950, 1960), selected_country = ''Peru'', selected_airline = ''All''\<rparr>"

definition all_years :: selection where
  "all_years =
     \<lparr>selected_year = (1949, 1961), selected_country = ''All'', selected_airline = ''All''\<rparr>"


text \<open>A sort by descending count that keeps the order of its input on equal counts.\<close>

definition ties_in_order :: "(cell \<times> nat) list \<Rightarrow> (cell \<times> nat) list" where
  "ties_in_order ps = sort_key (\<lambda>p. - int (snd p)) ps"

section \<open>Auxiliary facts\<close>

lemma cell_at_update:
  "cell_at (AList.update k v r) c = (if c = k then v else cell_at r c)"
  by (simp add: cell_at_def update_conv')

lemma load_rows:
  assumes "{''Year'', ''Month'', ''Day''} \<subseteq> set (columns df)"
  shows "rows (fst (load_data df)) =
         map normalised (filter (\<lambda>r. assembled_date r \<noteq> NaN) (rows df))"
  using assms
  by (simp add: load_data_def assign_def dropna_def Let_def filter_map o_def cell_at_update
      normalised_def assembled_date_def)

lemma int64_id:
  "- 9223372036854775808 \<le> k \<Longrightarrow> k < 9223372036854775808 \<Longrightarrow> int64 k = k"
  by (simp add: int64_def)

lemma date_or_nat_cases:
  "date_or_nat y m d = NaN \<or>
   (\<exists>y' m' d'. date_or_nat y m d = Timestamp y' m' d' \<and> valid_date y' m' d' \<and>
      in_bounds y' m' d')"
  by (cases "valid_date y m d \<and> in_bounds y m d")
    (simp_all only: date_or_nat_def if_True if_False simp_thms cell.inject ex_simps, blast)

lemma strptime_cases:
  "strptime_ymd k = NaN \<or>
   (\<exists>y m d. strptime_ymd k = Timestamp y m d \<and> valid_date y m d \<and> in_bounds y m d)"
proof -
  define ok where "ok c \<longleftrightarrow>
    c = NaN \<or> (\<exists>y m d. c = Timestamp y m d \<and> valid_date y m d \<and> in_bounds y m d)" for c
  have d: "ok (date_or_nat y m d)" for y m d
    unfolding ok_def by (rule date_or_nat_cases)
  have n: "ok NaN"
    by (simp add: ok_def)
  have i: "ok (if b then x else y)" if "ok x" "ok y" for b x y
    using that by simp
  have "ok (strptime_ymd k)"
    unfolding strptime_ymd_def by (intro i d n)
  then show ?thesis
    by (simp only: ok_def)
qed

lemma to_datetime_cases:
  "to_datetime a b c = NaN \<or>
   (\<exists>y m d. to_datetime a b c = Timestamp y m d \<and> valid_date y m d \<and> in_bounds y m d)"
proof (cases "\<exists>y m d. to_numeric a = Num y \<and> to_numeric b = Num m \<and> to_numeric c = Num d")
  case True
  then obtain y m d where "to_numeric a = Num y" "to_numeric b = Num m" "to_numeric c = Num d"
    by blast
  then have "to_datetime a b c = strptime_ymd (int64 (y * 10000 + m * 100 + d))"
    by (simp add: to_datetime_def)
  then show ?thesis
    using strptime_cases [of "int64 (y * 10000 + m * 100 + d)"] by simp
next
  case False
  then have "to_datetime a b c = NaN"
    by (auto simp: to_datetime_def split: cell.splits)
  then show ?thesis
    by simp
qed

lemma to_datetime_not_numeric:
  "to_numeric a = NaN \<or> to_numeric b = NaN \<or> to_numeric c = NaN \<Longrightarrow> to_datetime a b c = NaN"
  by (auto simp: to_datetime_def split: cell.splits)

lemma date_digits_year:
  fixes y m d :: int
  assumes "0 \<le> m" "m \<le> 99" "0 \<le> d" "d \<le> 99"
  shows "(y * 10000 + m * 100 + d) div 10000 = y"
proof -
  have "(m * 100 + d + y * 10000) div 10000 = (m * 100 + d) div 10000 + y"
    by simp
  moreover have "(m * 100 + d) div 10000 = 0"
    using assms by (intro div_pos_pos_trivial) linarith+
  ultimately show ?thesis
    by (simp add: add.commute)
qed

lemma date_digits_day:
  fixes y m d :: int
  assumes "0 \<le> d" "d \<le> 99"
  shows "(y * 10000 + m * 100 + d) mod 100 = d"
proof -
  have "(d + (y * 100 + m) * 100) mod 100 = d mod 100"
    by (rule mod_mult_self1)
  moreover have "d mod 100 = d"
    using assms by (intro mod_pos_pos_trivial) linarith+
  ultimately show ?thesis
    by (simp add: algebra_simps)
qed

lemma date_digits_month:
  fixes y m d :: int
  assumes "0 \<le> m" "m \<le> 99" "0 \<le> d" "d \<le> 99"
  shows "(y * 10000 + m * 100 + d) div 100 mod 100 = m"
proof -
  have "(d + (y * 100 + m) * 100) div 100 = d div 100 + (y * 100 + m)"
    by simp
  moreover have "d div 100 = 0"
    using assms by (intro div_pos_pos_trivial) linarith+
  ultimately have "(y * 10000 + m * 100 + d) div 100 = m + y * 100"
    by (simp add: algebra_simps)
  moreover have "(m + y * 100) mod 100 = m mod 100"
    by (rule mod_mult_self1)
  moreover have "m mod 100 = m"
    using assms by (intro mod_pos_pos_trivial) linarith+
  ultimately show ?thesis
    by simp
qed

lemma strptime_eight:
  assumes "10000000 \<le> k" and "k \<le> 99999999"
  shows "strptime_ymd (int64 k) = date_or_nat (k div 10000) (k div 100 mod 100) (k mod 100)"
proof -
  have "int64 k = k"
    using assms by (intro int64_id) linarith+
  moreover have "strptime_ymd k = date_or_nat (k div 10000) (k div 100 mod 100) (k mod 100)"
    unfolding strptime_ymd_def using assms by (simp only: if_True simp_thms)
  ultimately show ?thesis
    by (simp only:)
qed

lemma strptime_eight_digits:
  assumes "1000 \<le> y" "y \<le> 9999" "0 \<le> m" "m \<le> 99" "0 \<le> d" "d \<le> 99"
  shows "strptime_ymd (int64 (y * 10000 + m * 100 + d)) = date_or_nat y m d"
proof -
  let ?k = "y * 10000 + m * 100 + d"
  have "10000000 \<le> ?k" "?k \<le> 99999999"
    using assms by linarith+
  then have "strptime_ymd (int64 ?k) = date_or_nat (?k div 10000) (?k div 100 mod 100) (?k mod 100)"
    by (rule strptime_eight)
  then show ?thesis
    by (simp only: date_digits_year [OF assms(3-6)] date_digits_month [OF assms(3-6)]
        date_digits_day [OF assms(5-6)])
qed

lemma to_numeric_series_map: "to_numeric (series_map d c) = series_map d c"
  by (auto simp: to_numeric_def series_map_def split: cell.splits option.splits)

lemma month_map_range: "map_of month_map s = Some m \<Longrightarrow> 1 \<le> m \<and> m \<le> 12"
  by (auto simp: month_map_def split: if_splits)

lemma days_in_month_ge: "28 \<le> days_in_month y m"
  by (simp add: days_in_month_def)

lemma cell_at_normalised_Date: "cell_at (normalised r) ''Date'' = assembled_date r"
  by (simp add: normalised_def cell_at_update)

lemma cell_at_normalised_Year: "cell_at (normalised r) ''Year'' = dt_year (assembled_date r)"
  by (simp add: normalised_def cell_at_update)

lemma cell_at_normalised_Month: "cell_at (normalised r) ''Month'' = dt_month (assembled_date r)"
  by (simp add: normalised_def cell_at_update)

lemma cell_at_normalised_Day: "cell_at (normalised r) ''Day'' = fillna (Num 1) (cell_at r ''Day'')"
  by (simp add: normalised_def cell_at_update)

lemma cell_at_normalised_other:
  "c \<notin> {''Year'', ''Month'', ''Day'', ''Date''} \<Longrightarrow> cell_at (normalised r) c = cell_at r c"
  by (simp add: normalised_def cell_at_update)

lemma assembled_date_cases:
  "assembled_date r = NaN \<or>
   (\<exists>y m d. assembled_date r = Timestamp y m d \<and> valid_date y m d \<and> in_bounds y m d)"
  unfolding assembled_date_def by (rule to_datetime_cases)


lemma assembled_date_numbers:
  assumes "to_numeric (cell_at r ''Year'') = Num y"
    and "series_map month_map (cell_at r ''Month'') = Num m"
    and "to_numeric (fillna (Num 1) (cell_at r ''Day'')) = Num d"
  shows "assembled_date r = strptime_ymd (int64 (y * 10000 + m * 100 + d))"
proof -
  from assms(2) have "to_numeric (series_map month_map (cell_at r ''Month'')) = Num m"
    by (simp add: to_numeric_def)
  with assms(1,3) show ?thesis
    by (simp add: assembled_date_def to_datetime_def)
qed

lemma assembled_date_not_numeric:
  assumes "to_numeric (cell_at r ''Year'') = NaN \<or>
           series_map month_map (cell_at r ''Month'') = NaN \<or>
           to_numeric (fillna (Num 1) (cell_at r ''Day'')) = NaN"
  shows "assembled_date r = NaN"
  unfolding assembled_date_def using assms
  by (intro to_datetime_not_numeric) (simp add: to_numeric_series_map)

lemma load_rows_drop:
  assumes "{''Year'', ''Month'', ''Day''} \<subseteq> set (columns df)" and "rows df = xs @ r # ys"
    and "assembled_date r = NaN"
  shows "rows (fst (load_data df)) = rows (fst (load_data (df\<lparr>rows := xs @ ys\<rparr>)))"
  using assms by (simp add: load_rows)

lemma load_rows_keep:
  assumes "{''Year'', ''Month'', ''Day''} \<subseteq> set (columns df)" and "rows df = xs @ r # ys"
    and "assembled_date r \<noteq> NaN"
  shows "rows (fst (load_data df)) =
         rows (fst (load_data (df\<lparr>rows := xs\<rparr>))) @ normalised r #
         rows (fst (load_data (df\<lparr>rows := ys\<rparr>)))"
  using assms by (simp add: load_rows)


lemma series_map_no_key:
  assumes "c \<notin> Str ` fst ` set d"
  shows "series_map d c = NaN"
proof (cases c)
  case (Str s)
  with assms have "s \<notin> fst ` set d" by auto
  then have "map_of d s = None" by (simp add: map_of_eq_None_iff)
  with Str show ?thesis by (simp add: series_map_def)
qed (simp_all add: series_map_def)

lemma assembled_date_no_month:
  assumes "series_map month_map (cell_at r ''Month'') = NaN"
  shows "assembled_date r = NaN"
  using assms by (intro assembled_date_not_numeric) simp





lemma in_bounds_first:
  assumes "1678 \<le> y" and "y \<le> 2261" and "1 \<le> m" and "m \<le> 12"
  shows "in_bounds y m 1"
  using assms by (simp add: in_bounds_def Let_def)

lemma valid_first: "1 \<le> m \<Longrightarrow> m \<le> 12 \<Longrightarrow> valid_date y m 1"
  using days_in_month_ge [of y m] by (simp add: valid_date_def)

lemma filtered_df_Inr:
  assumes "''Year'' \<in> set (columns df)" and "list_all numeric (column df ''Year'')"
    and "selected_country sel \<noteq> ''All'' \<longrightarrow> ''Country/Region'' \<in> set (columns df)"
    and "selected_airline sel \<noteq> ''All'' \<longrightarrow> ''Operator'' \<in> set (columns df)"
  shows "filtered_df df sel =
    Inr (df\<lparr>rows := filter
      (\<lambda>r. year_between (fst (selected_year sel)) (snd (selected_year sel)) (cell_at r ''Year'') \<and>
           (selected_country sel \<noteq> ''All'' \<longrightarrow>
              cell_at r ''Country/Region'' = Str (selected_country sel)) \<and>
           (selected_airline sel \<noteq> ''All'' \<longrightarrow>
              cell_at r ''Operator'' = Str (selected_airline sel)))
      (rows df)\<rparr>)"
  using assms
  by (auto simp: filtered_df_def where_rows_def Let_def intro!: filter_cong)

lemma year_between_iff:
  "year_between lo hi c \<longleftrightarrow> (\<exists>y. c = Num y \<and> lo \<le> y \<and> y \<le> hi)"
  by (cases c) (simp_all add: year_between_def)

lemma filtered_df_sub:
  assumes "filtered_df df sel = Inr f"
  shows "columns f = columns df \<and> (\<exists>p. rows f = filter p (rows df))"
proof -
  have "\<exists>p. filter q (filter p' (rows df)) = filter p (rows df)" for q p'
    by (metis filter_filter)
  then show ?thesis
    using assms
    by (auto simp: filtered_df_def where_rows_def Let_def split: if_splits)
qed

lemma load_columns:
  assumes "{''Year'', ''Month'', ''Day''} \<subseteq> set (columns df)"
  shows "set (columns (fst (load_data df))) = insert ''Date'' (set (columns df))"
  using assms by (auto simp: load_data_def assign_def dropna_def Let_def)

lemma loaded_year_numeric:
  assumes "{''Year'', ''Month'', ''Day''} \<subseteq> set (columns df)"
  shows "list_all numeric (column (fst (load_data df)) ''Year'')"
  using assms
  by (auto simp: column_def load_rows list_all_iff cell_at_normalised_Year dt_year_def numeric_def
      split: cell.splits)

lemma numeric_filtered:
  assumes "filtered_df df sel = Inr f" and "list_all numeric (column df c)"
  shows "list_all numeric (column f c)"
proof -
  from assms(1) obtain p where "rows f = filter p (rows df)"
    using filtered_df_sub by blast
  with assms(2) show ?thesis
    by (simp add: column_def list_all_iff)
qed

lemma column_assign_other:
  "c \<noteq> k \<Longrightarrow> column (assign k g f) c = column f c"
  by (simp add: column_def assign_def cell_at_update o_def)

lemma columns_assign: "c \<in> set (columns (assign k g f)) \<longleftrightarrow> c = k \<or> c \<in> set (columns f)"
  by (auto simp: assign_def)

lemma getitem_assign_other:
  "c \<noteq> k \<Longrightarrow> c \<in> set (columns f) \<Longrightarrow> getitem (assign k g f) c = getitem f c"
  by (simp add: getitem_def columns_assign column_assign_other)

lemma rows_assign_length: "length (rows (assign k g f)) = length (rows f)"
  by (simp add: assign_def)

lemma zip_columns:
  "zip (column df a) (column df b) = map (\<lambda>r. (cell_at r a, cell_at r b)) (rows df)"
  by (simp add: column_def zip_map_map zip_same_conv_map)

lemma dashboard_InrD:
  assumes "dashboard sv df sel = Inr p"
  shows "\<exists>f. filtered_df df sel = Inr f \<and> metric_cards f = Inr (metric_row p) \<and>
             data_preview f = Inr (preview p) \<and> yearly_trend df = Inr (yearly_chart p) \<and>
             top_countries sv df = Inr (countries_chart p) \<and>
             regplot df = Inr (correlation_chart p) \<and> monthly df = Inr (monthly_chart p)"
  using assms
  by (auto simp: dashboard_def bind_result_def split: sum.splits)

lemma set_unique_from: "set (unique_from seen xs) = set xs - set seen"
  by (induction xs arbitrary: seen) auto

lemma distinct_unique_from: "distinct (unique_from seen xs)"
  by (induction xs arbitrary: seen) (auto simp: set_unique_from)

lemma set_unique: "set (unique xs) = set xs"
  by (simp add: unique_def set_unique_from)

lemma distinct_unique: "distinct (unique xs)"
  by (simp add: unique_def distinct_unique_from)

lemma map_fst_counts: "map fst (counts xs) = unique (filter (\<lambda>c. c \<noteq> NaN) xs)"
  by (simp add: counts_def o_def)

lemma set_counts: "set (counts xs) = (\<lambda>k. (k, count_list xs k)) ` (set xs - {NaN})"
  by (auto simp: counts_def set_unique)

lemma distinct_map_fst_counts: "distinct (map fst (counts xs))"
  by (simp add: map_fst_counts distinct_unique)

lemma count_list_pos: "k \<in> set xs \<Longrightarrow> 0 < count_list xs k"
  using count_list_0_iff [of xs k] by auto

lemma sorted_wrt_key_strict:
  assumes "sorted (map f xs)" and "distinct (map f xs)"
  shows "sorted_wrt (\<lambda>x y. f x < f y) xs"
proof -
  from assms have "sorted_wrt (<) (map f xs)"
    by (simp add: strict_sorted_iff)
  then show ?thesis
    by (simp add: sorted_wrt_map)
qed

lemma groupby_numeric:
  assumes num: "\<forall>c \<in> set xs. \<exists>m. c = Num m"
  shows "sorted_wrt (\<lambda>p q. \<exists>a b. fst p = Num a \<and> fst q = Num b \<and> a < b)
           (sort_key (\<lambda>p. cell_key (fst p)) (counts xs))"
proof -
  let ?ps = "sort_key (\<lambda>p. cell_key (fst p)) (counts xs)"
  have m: "mset ?ps = mset (counts xs)"
    by simp
  then have s: "set ?ps = set (counts xs)"
    by (rule mset_eq_setD)
  have keys: "\<exists>m. fst p = Num m" if "p \<in> set ?ps" for p
    using that num by (auto simp: s set_counts)
  from m have "mset (map fst ?ps) = mset (map fst (counts xs))"
    by simp
  then have d: "distinct (map fst ?ps)"
    using distinct_map_fst_counts [of xs] mset_eq_imp_distinct_iff by blast
  have "inj_on cell_key (fst ` set ?ps)"
  proof (rule inj_onI)
    fix k k' assume "k \<in> fst ` set ?ps" and "k' \<in> fst ` set ?ps"
      and e: "cell_key k = cell_key k'"
    with keys obtain a b where "k = Num a" "k' = Num b"
      by force
    with e show "k = k'"
      by (simp add: cell_key_def)
  qed
  with d have "distinct (map fst ?ps) \<and> inj_on cell_key (set (map fst ?ps))"
    by simp
  then have "distinct (map cell_key (map fst ?ps))"
    by (simp only: distinct_map)
  then have "distinct (map (\<lambda>p. cell_key (fst p)) ?ps)"
    by (simp only: map_map o_def)
  moreover have "sorted (map (\<lambda>p. cell_key (fst p)) ?ps)"
    by (rule sorted_sort_key)
  ultimately have "sorted_wrt (\<lambda>p q. cell_key (fst p) < cell_key (fst q)) ?ps"
    by (rule sorted_wrt_key_strict [rotated])
  moreover have "\<exists>a b. fst p = Num a \<and> fst q = Num b \<and> a < b"
    if "p \<in> set ?ps" and "q \<in> set ?ps" and "cell_key (fst p) < cell_key (fst q)" for p q
  proof -
    from keys that(1,2) obtain a b where ab: "fst p = Num a" "fst q = Num b"
      by blast
    with that(3) have "a < b"
      by (simp add: cell_key_def)
    with ab show ?thesis by blast
  qed
  ultimately show ?thesis
    by (rule sorted_wrt_mono_rel [rotated])
qed

lemma loaded_month_cells:
  assumes "{''Year'', ''Month'', ''Day''} \<subseteq> set (columns raw)"
    and "c \<in> set (column (fst (load_data raw)) ''Month'')"
  shows "\<exists>m. c = Num m \<and> 1 \<le> m \<and> m \<le> 12"
proof -
  from assms obtain r where c: "c = dt_month (assembled_date r)" and k: "assembled_date r \<noteq> NaN"
    by (auto simp: column_def load_rows cell_at_normalised_Month)
  from k assembled_date_cases [of r] obtain y m d where
    "assembled_date r = Timestamp y m d" and "valid_date y m d"
    by blast
  with c show ?thesis
    by (simp add: dt_month_def valid_date_def)
qed

lemma count_list_column:
  "count_list (column df c) k = length (filter (\<lambda>r. cell_at r c = k) (rows df))"
  by (simp add: count_list_eq_length_filter column_def filter_map o_def eq_commute)

section \<open>The claims\<close>

text \<open>
  Each claim of the specification is stated before its theorem. A theorem named
  \<open>..._witness\<close> applies the theorem before it to one of the sample tables; a theorem named
  \<open>..._counterexample\<close> shows a sample on which the claim, as the specification words it,
  fails.
\<close>

text \<open>
  \<^bold>\<open>C1\<close> (as amended). When one of the columns \<open>Year\<close>, \<open>Month\<close>, \<open>Day\<close> is missing,
  \<open>load_data\<close> normalises nothing, shows the message
  ``Year, Month, or Day column is missing from the dataset.'' and returns the raw table as
  it is. It raises nothing.
\<close>

theorem load_data_missing_column:
  assumes "\<not> {''Year'', ''Month'', ''Day''} \<subseteq> set (columns df)"
  shows "load_data df = (df, [''Year, Month, or Day column is missing from the dataset.''])"
  using assms by (auto simp: load_data_def)

theorem load_data_missing_column_witness:
  "\<not> {''Year'', ''Month'', ''Day''} \<subseteq> set (columns crashes_without_day) \<and>
   load_data crashes_without_day =
     (crashes_without_day, [''Year, Month, or Day column is missing from the dataset.''])"
proof -
  have h: "\<not> {''Year'', ''Month'', ''Day''} \<subseteq> set (columns crashes_without_day)"
    by (simp add: crashes_without_day_def)
  show ?thesis
    using h load_data_missing_column [OF h] by simp
qed

text \<open>
  Claim C1 as stated (the load fails, no table is produced and the pipeline stops) does not
  hold: for a table without the \<open>Day\<close> column \<open>load_data\<close> returns the table, and the
  filter and the metric cards are computed from it.
\<close>

theorem missing_day_column_counterexample:
  "fst (load_data crashes_without_day) = crashes_without_day \<and>
   rows (fst (load_data crashes_without_day)) \<noteq> [] \<and>
   bind_result
     (filtered_df (fst (load_data crashes_without_day))
        \<lparr>selected_year = (1940, 1952), selected_country = ''All'', selected_airline = ''All''\<rparr>)
     metric_cards =
     Inr \<lparr>total_crashes = 2, total_fatalities = 19, countries_affected = 2,
          airlines_involved = 2\<rparr>"
  by code_simp

text \<open>
  \<^bold>\<open>C2\<close> (as amended). A raw month that is not one of the twelve full English month names,
  a number from 1 to 12 and a numeral text included, is mapped to a missing value by the
  month mapping; no date can be assembled for the record, and the load gives what it gives
  without that record.
\<close>

theorem month_that_is_no_name_is_dropped:
  assumes "{''Year'', ''Month'', ''Day''} \<subseteq> set (columns df)"
    and "rows df = xs @ r # ys"
    and "cell_at r ''Month'' \<notin> Str ` fst ` set month_map"
  shows "series_map month_map (cell_at r ''Month'') = NaN \<and>
         rows (fst (load_data df)) = rows (fst (load_data (df\<lparr>rows := xs @ ys\<rparr>)))"
proof -
  from assms(3) have m: "series_map month_map (cell_at r ''Month'') = NaN"
    by (rule series_map_no_key)
  then have "assembled_date r = NaN"
    by (rule assembled_date_no_month)
  with assms(1,2) have "rows (fst (load_data df)) = rows (fst (load_data (df\<lparr>rows := xs @ ys\<rparr>)))"
    by (rule load_rows_drop)
  with m show ?thesis by simp
qed

theorem month_that_is_no_name_is_dropped_witness:
  "{''Year'', ''Month'', ''Day''} \<subseteq> set (columns numeric_months) \<and>
   rows numeric_months = [] @ (rows numeric_months ! 0) # [rows numeric_months ! 1] \<and>
   cell_at (rows numeric_months ! 0) ''Month'' = Num 3 \<and>
   Num 3 \<notin> Str ` fst ` set month_map \<and>
   series_map month_map (Num 3) = NaN \<and>
   rows (fst (load_data numeric_months)) =
     rows (fst (load_data (numeric_months\<lparr>rows := [rows numeric_months ! 1]\<rparr>)))"
proof -
  have c: "{''Year'', ''Month'', ''Day''} \<subseteq> set (columns numeric_months)"
    by (simp add: numeric_months_def)
  have s: "rows numeric_months = [] @ (rows numeric_months ! 0) # [rows numeric_months ! 1]"
    by (simp add: numeric_months_def)
  have v: "cell_at (rows numeric_months ! 0) ''Month'' = Num 3"
    by (simp add: numeric_months_def cell_at_def)
  have n: "Num 3 \<notin> Str ` fst ` set month_map"
    by auto
  from n v have n': "cell_at (rows numeric_months ! 0) ''Month'' \<notin> Str ` fst ` set month_map"
    by simp
  from month_that_is_no_name_is_dropped [OF c s n'] c s v n show ?thesis
    by simp
qed

text \<open>
  Claim C2 as stated (a month that already is a number from 1 to 12 passes through the
  mapping unchanged and the date is built from it) does not hold: the months \<open>3\<close> and
  \<open>''12''\<close> do not pass through, and the two records, whose dates 2000-03-15 and 2001-12-25
  would be calendar dates, are both dropped.
\<close>

theorem numeric_month_counterexample:
  "series_map month_map (Num 3) \<noteq> Num 3 \<and>
   series_map month_map (Str ''12'') \<noteq> Str ''12'' \<and>
   valid_date 2000 3 15 \<and> valid_date 2001 12 25 \<and>
   rows (fst (load_data numeric_months)) = []"
  by code_simp

text \<open>
  \<^bold>\<open>C3\<close> (as amended). On a loaded table the monthly pattern has one pair (month, count)
  for every month in which the table has a record, and for no other month: the months come
  in ascending order, each between 1 and 12, and the count of a month is the number of its
  records, which is at least 1. There are at most 12 pairs; a month without records is
  absent, not reported with count 0.
\<close>

theorem monthly_reports_months_that_occur:
  assumes "{''Year'', ''Month'', ''Day''} \<subseteq> set (columns raw)"
  shows "\<exists>ps. monthly (fst (load_data raw)) = Inr ps \<and>
     sorted_wrt (\<lambda>p q. \<exists>a b. fst p = Num a \<and> fst q = Num b \<and> a < b) ps \<and>
     (\<forall>p \<in> set ps. \<exists>m. fst p = Num m \<and> 1 \<le> m \<and> m \<le> 12 \<and> 0 < snd p \<and>
        snd p = length (filter (\<lambda>r. cell_at r ''Month'' = Num m) (rows (fst (load_data raw))))) \<and>
     (\<forall>m. (\<exists>r \<in> set (rows (fst (load_data raw))). cell_at r ''Month'' = Num m) \<longrightarrow>
        Num m \<in> fst ` set ps) \<and>
     length ps \<le> 12"
proof -
  let ?df = "fst (load_data raw)"
  let ?xs = "column ?df ''Month''"
  let ?ps = "sort_key (\<lambda>p. cell_key (fst p)) (counts ?xs)"
  have cells: "\<exists>m. c = Num m \<and> 1 \<le> m \<and> m \<le> 12" if "c \<in> set ?xs" for c
    using assms that by (rule loaded_month_cells)
  have "''Month'' \<in> set (columns ?df)"
    using assms by (simp add: load_columns)
  then have 1: "monthly ?df = Inr ?ps"
    by (simp add: monthly_def groupby_size_def bind_result_def getitem_def)
  have 2: "sorted_wrt (\<lambda>p q. \<exists>a b. fst p = Num a \<and> fst q = Num b \<and> a < b) ?ps"
    using cells by (intro groupby_numeric) blast
  have s: "set ?ps = set (counts ?xs)"
    by (rule mset_eq_setD) simp
  have 3: "\<exists>m. fst p = Num m \<and> 1 \<le> m \<and> m \<le> 12 \<and> 0 < snd p \<and>
        snd p = length (filter (\<lambda>r. cell_at r ''Month'' = Num m) (rows ?df))"
    if "p \<in> set ?ps" for p
  proof -
    from that obtain k where k: "k \<in> set ?xs" and p: "p = (k, count_list ?xs k)"
      by (auto simp: s set_counts)
    from cells [OF k] obtain m where m: "k = Num m" "1 \<le> m" "m \<le> 12"
      by blast
    from k have "0 < count_list ?xs k"
      by (rule count_list_pos)
    with p m show ?thesis
      by (simp add: count_list_column)
  qed
  have 4: "Num m \<in> fst ` set ?ps" if "\<exists>r \<in> set (rows ?df). cell_at r ''Month'' = Num m" for m
  proof -
    from that have "Num m \<in> set ?xs"
      by (force simp: column_def)
    then have "(Num m, count_list ?xs (Num m)) \<in> set ?ps"
      by (simp add: s set_counts)
    then show ?thesis
      by (rule image_eqI [rotated]) simp
  qed
  have "mset (map fst ?ps) = mset (map fst (counts ?xs))"
    by simp
  then have "distinct (map fst ?ps)"
    using distinct_map_fst_counts [of ?xs] mset_eq_imp_distinct_iff by blast
  then have "length ?ps = card (fst ` set ?ps)"
    using distinct_card [of "map fst ?ps"] by simp
  also have "\<dots> \<le> card (Num ` {1..12})"
  proof (rule card_mono)
    show "fst ` set ?ps \<subseteq> Num ` {1..12}"
      using 3 by force
  qed simp
  also have "\<dots> \<le> card {1..12::int}"
    by (rule card_image_le) simp
  finally have 5: "length ?ps \<le> 12"
    by simp
  from 1 2 3 4 5 show ?thesis
    by blast
qed

theorem monthly_reports_months_that_occur_witness:
  "{''Year'', ''Month'', ''Day''} \<subseteq> set (columns raw_crashes) \<and>
   (\<exists>ps. monthly (fst (load_data raw_crashes)) = Inr ps \<and> length ps \<le> 12 \<and>
      sorted_wrt (\<lambda>p q. \<exists>a b. fst p = Num a \<and> fst q = Num b \<and> a < b) ps) \<and>
   monthly (fst (load_data raw_crashes)) = Inr [(Num 3, 2), (Num 5, 1), (Num 7, 2)]"
proof -
  have c: "{''Year'', ''Month'', ''Day''} \<subseteq> set (columns raw_crashes)"
    by code_simp
  have e: "monthly (fst (load_data raw_crashes)) = Inr [(Num 3, 2), (Num 5, 1), (Num 7, 2)]"
    by code_simp
  from monthly_reports_months_that_occur [OF c]
  have x: "\<exists>ps. monthly (fst (load_data raw_crashes)) = Inr ps \<and> length ps \<le> 12 \<and>
      sorted_wrt (\<lambda>p q. \<exists>a b. fst p = Num a \<and> fst q = Num b \<and> a < b) ps"
    by (elim exE conjE) (rule exI, intro conjI)
  show ?thesis
    by (intro conjI c x e)
qed

text \<open>
  Claim C3 as stated (always 12 pairs with the keys 1 to 12, a month without records
  reported with count 0) does not hold: a table with records in March, May and July gives
  three pairs, and a table without records gives none.
\<close>

theorem monthly_is_not_dense_counterexample:
  "monthly crashes = Inr [(Num 3, 2), (Num 5, 1), (Num 7, 2)] \<and>
   monthly (crashes\<lparr>rows := []\<rparr>) = Inr []"
  by code_simp




text \<open>
  \<^bold>\<open>C5\<close>. On a table that has the columns \<open>Year\<close>, \<open>Country/Region\<close> and \<open>Operator\<close> and
  whose years are numbers (as they are after \<open>load_data\<close>), the filter does not raise and
  returns the table with exactly the records, in their order, whose year lies in the
  selected range, both ends included, whose country is the selected one unless ``All'' is
  selected, and whose operator is the selected one unless ``All'' is selected. The
  comparison of texts is equality, so ``peru'' is not ``Peru''. With ``All'' twice the
  result is the subset with the year in the range.
\<close>

theorem filtered_df_exact:
  assumes "''Year'' \<in> set (columns df)" and "list_all numeric (column df ''Year'')"
    and "''Country/Region'' \<in> set (columns df)" and "''Operator'' \<in> set (columns df)"
  shows
    "filtered_df df sel =
       Inr (df\<lparr>rows := filter
         (\<lambda>r. (\<exists>y. cell_at r ''Year'' = Num y \<and> fst (selected_year sel) \<le> y \<and>
                    y \<le> snd (selected_year sel)) \<and>
              (selected_country sel \<noteq> ''All'' \<longrightarrow>
                 cell_at r ''Country/Region'' = Str (selected_country sel)) \<and>
              (selected_airline sel \<noteq> ''All'' \<longrightarrow>
                 cell_at r ''Operator'' = Str (selected_airline sel)))
         (rows df)\<rparr>) \<and>
     (selected_country sel = ''All'' \<and> selected_airline sel = ''All'' \<longrightarrow>
        filtered_df df sel =
          Inr (df\<lparr>rows := filter
            (\<lambda>r. \<exists>y. cell_at r ''Year'' = Num y \<and> fst (selected_year sel) \<le> y \<and>
                      y \<le> snd (selected_year sel))
            (rows df)\<rparr>))"
  using assms by (simp add: filtered_df_Inr year_between_iff)

theorem filtered_df_exact_witness:
  "''Year'' \<in> set (columns crashes) \<and> list_all numeric (column crashes ''Year'') \<and>
   ''Country/Region'' \<in> set (columns crashes) \<and> ''Operator'' \<in> set (columns crashes) \<and>
   filtered_df crashes
     \<lparr>selected_year = (1950, 1960), selected_country = ''Peru'', selected_airline = ''All''\<rparr> =
     Inr (crashes\<lparr>rows := filter
       (\<lambda>r. (\<exists>y. cell_at r ''Year'' = Num y \<and> 1950 \<le> y \<and> y \<le> 1960) \<and>
            cell_at r ''Country/Region'' = Str ''Peru'')
       (rows crashes)\<rparr>) \<and>
   map (\<lambda>r. (cell_at r ''Year'', cell_at r ''Country/Region''))
     (case filtered_df crashes
        \<lparr>selected_year = (1950, 1960), selected_country = ''Peru'', selected_airline = ''All''\<rparr>
      of Inl e \<Rightarrow> [] | Inr f \<Rightarrow> rows f) =
     [(Num 1950, Str ''Peru'')] \<and>
   map (\<lambda>r. (cell_at r ''Year'', cell_at r ''Country/Region''))
     (case filtered_df crashes
        \<lparr>selected_year = (1950, 1960), selected_country = ''All'', selected_airline = ''All''\<rparr>
      of Inl e \<Rightarrow> [] | Inr f \<Rightarrow> rows f) =
     [(Num 1950, Str ''Peru''), (Num 1955, Str ''peru''), (Num 1960, Str ''Chile'')]"
proof -
  have y: "''Year'' \<in> set (columns crashes)" and n: "list_all numeric (column crashes ''Year'')"
    and c: "''Country/Region'' \<in> set (columns crashes)" and o: "''Operator'' \<in> set (columns crashes)"
    by code_simp+
  have e1: "map (\<lambda>r. (cell_at r ''Year'', cell_at r ''Country/Region''))
     (case filtered_df crashes
        \<lparr>selected_year = (1950, 1960), selected_country = ''Peru'', selected_airline = ''All''\<rparr>
      of Inl e \<Rightarrow> [] | Inr f \<Rightarrow> rows f) =
     [(Num 1950, Str ''Peru'')]"
    by code_simp
  have e2: "map (\<lambda>r. (cell_at r ''Year'', cell_at r ''Country/Region''))
     (case filtered_df crashes
        \<lparr>selected_year = (1950, 1960), selected_country = ''All'', selected_airline = ''All''\<rparr>
      of Inl e \<Rightarrow> [] | Inr f \<Rightarrow> rows f) =
     [(Num 1950, Str ''Peru''), (Num 1955, Str ''peru''), (Num 1960, Str ''Chile'')]"
    by code_simp
  have "filtered_df crashes
     \<lparr>selected_year = (1950, 1960), selected_country = ''Peru'', selected_airline = ''All''\<rparr> =
     Inr (crashes\<lparr>rows := filter
       (\<lambda>r. (\<exists>y. cell_at r ''Year'' = Num y \<and> 1950 \<le> y \<and> y \<le> 1960) \<and>
            cell_at r ''Country/Region'' = Str ''Peru'')
       (rows crashes)\<rparr>)"
    using filtered_df_exact [OF y n c o, of
        "\<lparr>selected_year = (1950, 1960), selected_country = ''Peru'', selected_airline = ''All''\<rparr>"]
    by simp
  with y n c o e1 e2 show ?thesis
    by (intro conjI)
qed

text \<open>
  \<^bold>\<open>C7\<close>. A raw record whose day is missing, whose year is a number that a pandas date can
  hold and whose month is a month name is retained: the load puts the record, with day 1 and
  the date of the first of that month, between what it gives for the records before and
  after it. The columns that the normalisation does not touch keep their cells.
\<close>

theorem missing_day_defaults_to_first:
  assumes "{''Year'', ''Month'', ''Day''} \<subseteq> set (columns df)"
    and "rows df = xs @ r # ys"
    and "cell_at r ''Day'' = NaN"
    and "to_numeric (cell_at r ''Year'') = Num y" and "1678 \<le> y" and "y \<le> 2261"
    and "cell_at r ''Month'' = Str name" and "map_of month_map name = Some m"
  shows "\<exists>r'. rows (fst (load_data df)) =
               rows (fst (load_data (df\<lparr>rows := xs\<rparr>))) @ r' #
               rows (fst (load_data (df\<lparr>rows := ys\<rparr>))) \<and>
             cell_at r' ''Day'' = Num 1 \<and> cell_at r' ''Date'' = Timestamp y m 1 \<and>
             cell_at r' ''Year'' = Num y \<and> cell_at r' ''Month'' = Num m \<and>
             (\<forall>c. c \<notin> {''Year'', ''Month'', ''Day'', ''Date''} \<longrightarrow> cell_at r' c = cell_at r c)"
proof -
  from assms(8) have m: "1 \<le> m" "m \<le> 12"
    using month_map_range by blast+
  have v: "valid_date y m 1" "in_bounds y m 1"
    using m assms(5,6) by (simp_all add: valid_first in_bounds_first)
  have sm: "series_map month_map (cell_at r ''Month'') = Num m"
    using assms(7,8) by (simp add: series_map_def)
  have n: "to_numeric (fillna (Num 1) (cell_at r ''Day'')) = Num 1"
    using assms(3) by (simp add: fillna_def to_numeric_def)
  from assms(4) sm n have "assembled_date r = strptime_ymd (int64 (y * 10000 + m * 100 + 1))"
    by (rule assembled_date_numbers)
  also have "\<dots> = date_or_nat y m 1"
    using assms(5,6) m by (intro strptime_eight_digits) linarith+
  also have "\<dots> = Timestamp y m 1"
    using v by (simp add: date_or_nat_def)
  finally have d: "assembled_date r = Timestamp y m 1" .
  then have "assembled_date r \<noteq> NaN" by simp
  with assms(1,2) have "rows (fst (load_data df)) =
         rows (fst (load_data (df\<lparr>rows := xs\<rparr>))) @ normalised r #
         rows (fst (load_data (df\<lparr>rows := ys\<rparr>)))"
    by (rule load_rows_keep)
  moreover have "cell_at (normalised r) ''Day'' = Num 1"
    using assms(3) by (simp add: cell_at_normalised_Day fillna_def)
  moreover have "cell_at (normalised r) ''Date'' = Timestamp y m 1"
    using d by (simp add: cell_at_normalised_Date)
  moreover have "cell_at (normalised r) ''Year'' = Num y" "cell_at (normalised r) ''Month'' = Num m"
    using d by (simp_all add: cell_at_normalised_Year cell_at_normalised_Month dt_year_def dt_month_def)
  moreover have "\<forall>c. c \<notin> {''Year'', ''Month'', ''Day'', ''Date''} \<longrightarrow>
      cell_at (normalised r) c = cell_at r c"
    using cell_at_normalised_other by blast
  ultimately show ?thesis by blast
qed

theorem missing_day_defaults_to_first_witness:
  "{''Year'', ''Month'', ''Day''} \<subseteq> set (columns crash_without_day_value) \<and>
   rows crash_without_day_value =
     [rows crash_without_day_value ! 0] @ (rows crash_without_day_value ! 1) # [] \<and>
   cell_at (rows crash_without_day_value ! 1) ''Day'' = NaN \<and>
   to_numeric (cell_at (rows crash_without_day_value ! 1) ''Year'') = Num 1960 \<and>
   (1678 :: int) \<le> 1960 \<and> (1960 :: int) \<le> 2261 \<and>
   cell_at (rows crash_without_day_value ! 1) ''Month'' = Str ''March'' \<and>
   map_of month_map ''March'' = Some 3 \<and>
   (\<exists>r'. rows (fst (load_data crash_without_day_value)) =
           rows (fst (load_data (crash_without_day_value\<lparr>rows := [rows crash_without_day_value ! 0]\<rparr>))) @
           r' # rows (fst (load_data (crash_without_day_value\<lparr>rows := []\<rparr>))) \<and>
         cell_at r' ''Day'' = Num 1 \<and> cell_at r' ''Date'' = Timestamp 1960 3 1 \<and>
         cell_at r' ''Operator'' = Str ''LAN'') \<and>
   map (\<lambda>r. (cell_at r ''Date'', cell_at r ''Day'', cell_at r ''Operator''))
     (rows (fst (load_data crash_without_day_value))) =
     [(Timestamp 1958 8 14, Num 14, Str ''KLM''), (Timestamp 1960 3 1, Num 1, Str ''LAN'')]"
proof -
  let ?t = crash_without_day_value
  have c: "{''Year'', ''Month'', ''Day''} \<subseteq> set (columns ?t)"
    by (simp add: crash_without_day_value_def)
  have s: "rows ?t = [rows ?t ! 0] @ (rows ?t ! 1) # []"
    by (simp add: crash_without_day_value_def)
  have d: "cell_at (rows ?t ! 1) ''Day'' = NaN"
    and y: "to_numeric (cell_at (rows ?t ! 1) ''Year'') = Num 1960"
    and m: "cell_at (rows ?t ! 1) ''Month'' = Str ''March''"
    and o: "cell_at (rows ?t ! 1) ''Operator'' = Str ''LAN''"
    by (simp_all add: crash_without_day_value_def cell_at_def to_numeric_def)
  have k: "map_of month_map ''March'' = Some 3"
    by (simp add: month_map_def)
  have b: "(1678 :: int) \<le> 1960" "(1960 :: int) \<le> 2261"
    by simp_all
  have e: "map (\<lambda>r. (cell_at r ''Date'', cell_at r ''Day'', cell_at r ''Operator''))
     (rows (fst (load_data ?t))) =
     [(Timestamp 1958 8 14, Num 14, Str ''KLM''), (Timestamp 1960 3 1, Num 1, Str ''LAN'')]"
    by code_simp
  have n: "''Operator'' \<notin> {''Year'', ''Month'', ''Day'', ''Date''}"
    by simp
  from missing_day_defaults_to_first [OF c s d y b m k] obtain r' where
    r: "rows (fst (load_data ?t)) =
          rows (fst (load_data (?t\<lparr>rows := [rows ?t ! 0]\<rparr>))) @ r' #
          rows (fst (load_data (?t\<lparr>rows := []\<rparr>))) \<and>
        cell_at r' ''Day'' = Num 1 \<and> cell_at r' ''Date'' = Timestamp 1960 3 1 \<and>
        cell_at r' ''Year'' = Num 1960 \<and> cell_at r' ''Month'' = Num 3 \<and>
        (\<forall>c. c \<notin> {''Year'', ''Month'', ''Day'', ''Date''} \<longrightarrow>
           cell_at r' c = cell_at (rows ?t ! 1) c)" ..
  from r have r1: "rows (fst (load_data ?t)) =
          rows (fst (load_data (?t\<lparr>rows := [rows ?t ! 0]\<rparr>))) @ r' #
          rows (fst (load_data (?t\<lparr>rows := []\<rparr>)))"
    by (rule conjunct1)
  from r have r2: "cell_at r' ''Day'' = Num 1"
    by (elim conjE)
  from r have r3: "cell_at r' ''Date'' = Timestamp 1960 3 1"
    by (elim conjE)
  from r have r4: "\<forall>c. c \<notin> {''Year'', ''Month'', ''Day'', ''Date''} \<longrightarrow>
           cell_at r' c = cell_at (rows ?t ! 1) c"
    by (elim conjE)
  from r4 have "''Operator'' \<notin> {''Year'', ''Month'', ''Day'', ''Date''} \<longrightarrow>
           cell_at r' ''Operator'' = cell_at (rows ?t ! 1) ''Operator''"
    by (rule spec)
  then have r5: "cell_at r' ''Operator'' = Str ''LAN''"
    using o by simp
  have x: "\<exists>r'. rows (fst (load_data ?t)) =
           rows (fst (load_data (?t\<lparr>rows := [rows ?t ! 0]\<rparr>))) @
           r' # rows (fst (load_data (?t\<lparr>rows := []\<rparr>))) \<and>
         cell_at r' ''Day'' = Num 1 \<and> cell_at r' ''Date'' = Timestamp 1960 3 1 \<and>
         cell_at r' ''Operator'' = Str ''LAN''"
    by (rule exI [of _ r']) (intro conjI r1 r2 r3 r5)
  show ?thesis
    by (intro conjI) (rule c s d y m k e x b)+
qed

text \<open>
  \<^bold>\<open>C8\<close>. The correlation chart is drawn from the pairs (air, ground) of exactly those
  records in which neither cell is missing, in the order of the table, with the cells as
  they are: a record with a missing cell is left out, and no missing cell is turned into 0.
  The number of pairs is the number of records with both cells present; ten records of which
  two lack the ground cell give eight pairs.
\<close>

theorem regplot_leaves_out_incomplete_pairs:
  assumes "{''Fatalities (air)'', ''Ground''} \<subseteq> set (columns df)"
  shows "\<exists>ps. regplot df = Inr ps \<and>
           ps = map (\<lambda>r. (cell_at r ''Fatalities (air)'', cell_at r ''Ground''))
                  (filter (\<lambda>r. cell_at r ''Fatalities (air)'' \<noteq> NaN \<and> cell_at r ''Ground'' \<noteq> NaN)
                     (rows df)) \<and>
           length ps =
             length (filter (\<lambda>r. cell_at r ''Fatalities (air)'' \<noteq> NaN \<and> cell_at r ''Ground'' \<noteq> NaN)
                       (rows df))"
  using assms
  by (simp add: regplot_def bind_result_def getitem_def zip_columns filter_map o_def)

theorem regplot_leaves_out_incomplete_pairs_witness:
  "{''Fatalities (air)'', ''Ground''} \<subseteq> set (columns ten_crashes) \<and>
   length (rows ten_crashes) = 10 \<and>
   length (filter (\<lambda>c. c = NaN) (column ten_crashes ''Ground'')) = 2 \<and>
   (\<exists>ps. regplot ten_crashes = Inr ps \<and> length ps = 8) \<and>
   regplot ten_crashes =
     Inr [(Num 4, Num 0), (Num 7, Num 2), (Num 12, Num 0), (Num 1, Num 5), (Num 25, Num 0),
          (Num 3, Num 0), (Num 60, Num 1), (Num 2, Num 0)]"
proof -
  have c: "{''Fatalities (air)'', ''Ground''} \<subseteq> set (columns ten_crashes)"
    and l: "length (rows ten_crashes) = 10"
    and z: "length (filter (\<lambda>c. c = NaN) (column ten_crashes ''Ground'')) = 2"
    by code_simp+
  have k: "length (filter (\<lambda>r. cell_at r ''Fatalities (air)'' \<noteq> NaN \<and> cell_at r ''Ground'' \<noteq> NaN)
                       (rows ten_crashes)) = 8"
    by code_simp
  have e: "regplot ten_crashes =
     Inr [(Num 4, Num 0), (Num 7, Num 2), (Num 12, Num 0), (Num 1, Num 5), (Num 25, Num 0),
          (Num 3, Num 0), (Num 60, Num 1), (Num 2, Num 0)]"
    by code_simp
  from regplot_leaves_out_incomplete_pairs [OF c] k
  have x: "\<exists>ps. regplot ten_crashes = Inr ps \<and> length ps = 8"
    by auto
  show ?thesis
    by (intro conjI c l z x e)
qed

text \<open>
  \<^bold>\<open>C9\<close>. When the page is rendered for two selections over the same table, the yearly
  trend, the top countries, the correlation pairs and the monthly pattern are the same in
  both: each is computed from the whole table \<open>df\<close>. The metric cards and the data preview
  are computed from the filtered view, and they do change with the selection (the witness
  has two selections with different cards and previews).
\<close>

theorem charts_do_not_depend_on_selection:
  assumes "dashboard sv df s1 = Inr p1" and "dashboard sv df s2 = Inr p2"
  shows "yearly_chart p1 = yearly_chart p2 \<and> countries_chart p1 = countries_chart p2 \<and>
         correlation_chart p1 = correlation_chart p2 \<and> monthly_chart p1 = monthly_chart p2 \<and>
         yearly_trend df = Inr (yearly_chart p1) \<and>
         top_countries sv df = Inr (countries_chart p1) \<and>
         regplot df = Inr (correlation_chart p1) \<and> monthly df = Inr (monthly_chart p1) \<and>
         (\<exists>f. filtered_df df s1 = Inr f \<and> metric_cards f = Inr (metric_row p1) \<and>
              data_preview f = Inr (preview p1))"
proof -
  from dashboard_InrD [OF assms(1)] obtain f1 where
    1: "filtered_df df s1 = Inr f1" "metric_cards f1 = Inr (metric_row p1)"
      "data_preview f1 = Inr (preview p1)" "yearly_trend df = Inr (yearly_chart p1)"
      "top_countries sv df = Inr (countries_chart p1)"
      "regplot df = Inr (correlation_chart p1)" "monthly df = Inr (monthly_chart p1)"
    by blast
  from dashboard_InrD [OF assms(2)] have
    2: "yearly_trend df = Inr (yearly_chart p2)"
      "top_countries sv df = Inr (countries_chart p2)"
      "regplot df = Inr (correlation_chart p2)" "monthly df = Inr (monthly_chart p2)"
    by blast+
  from 1 2 show ?thesis by auto
qed

theorem charts_do_not_depend_on_selection_witness:
  "\<exists>p1 p2. dashboard ties_in_order crashes peru_fifties = Inr p1 \<and>
           dashboard ties_in_order crashes all_years = Inr p2 \<and>
           yearly_chart p1 = yearly_chart p2 \<and> countries_chart p1 = countries_chart p2 \<and>
           correlation_chart p1 = correlation_chart p2 \<and> monthly_chart p1 = monthly_chart p2 \<and>
           metric_row p1 =
             \<lparr>total_crashes = 1, total_fatalities = 7, countries_affected = 1,
              airlines_involved = 1\<rparr> \<and>
           metric_row p2 =
             \<lparr>total_crashes = 5, total_fatalities = 24, countries_affected = 3,
              airlines_involved = 2\<rparr> \<and>
           length (preview p1) = 1 \<and> length (preview p2) = 5 \<and>
           monthly_chart p1 = [(Num 3, 2), (Num 5, 1), (Num 7, 2)]"
proof -
  have "\<not> isl (dashboard ties_in_order crashes peru_fifties)"
    by code_simp
  then obtain p1 where d1: "dashboard ties_in_order crashes peru_fifties = Inr p1"
    by (cases "dashboard ties_in_order crashes peru_fifties") simp_all
  have "\<not> isl (dashboard ties_in_order crashes all_years)"
    by code_simp
  then obtain p2 where d2: "dashboard ties_in_order crashes all_years = Inr p2"
    by (cases "dashboard ties_in_order crashes all_years") simp_all
  have "map_sum id metric_row (dashboard ties_in_order crashes peru_fifties) =
      Inr \<lparr>total_crashes = 1, total_fatalities = 7, countries_affected = 1,
              airlines_involved = 1\<rparr>"
    by code_simp
  with d1 have m1: "metric_row p1 =
      \<lparr>total_crashes = 1, total_fatalities = 7, countries_affected = 1, airlines_involved = 1\<rparr>"
    by simp
  have "map_sum id metric_row (dashboard ties_in_order crashes all_years) =
      Inr \<lparr>total_crashes = 5, total_fatalities = 24, countries_affected = 3,
              airlines_involved = 2\<rparr>"
    by code_simp
  with d2 have m2: "metric_row p2 =
      \<lparr>total_crashes = 5, total_fatalities = 24, countries_affected = 3, airlines_involved = 2\<rparr>"
    by simp
  have "map_sum id (\<lambda>p. length (preview p)) (dashboard ties_in_order crashes peru_fifties) = Inr 1"
    by code_simp
  with d1 have l1: "length (preview p1) = 1"
    by simp
  have "map_sum id (\<lambda>p. length (preview p)) (dashboard ties_in_order crashes all_years) = Inr 5"
    by code_simp
  with d2 have l2: "length (preview p2) = 5"
    by simp
  have "map_sum id monthly_chart (dashboard ties_in_order crashes peru_fifties) =
      Inr [(Num 3, 2), (Num 5, 1), (Num 7, 2)]"
    by code_simp
  with d1 have mo: "monthly_chart p1 = [(Num 3, 2), (Num 5, 1), (Num 7, 2)]"
    by simp
  note t = charts_do_not_depend_on_selection [OF d1 d2]
  from t have c1: "yearly_chart p1 = yearly_chart p2"
    by (elim conjE)
  from t have c2: "countries_chart p1 = countries_chart p2"
    by (elim conjE)
  from t have c3: "correlation_chart p1 = correlation_chart p2"
    by (elim conjE)
  from t have c4: "monthly_chart p1 = monthly_chart p2"
    by (elim conjE)
  show ?thesis
    by (rule exI [of _ p1], rule exI [of _ p2]) (intro conjI d1 d2 c1 c2 c3 c4 m1 m2 l1 l2 mo)
qed

text \<open>
  \<^bold>\<open>C10\<close>. The ``Total Fatalities'' card of a filtered view \<open>f\<close> is the sum of the column
  \<open>Fatalities (air)\<close> over the records of \<open>f\<close>, a missing cell counting 0, as long as the
  absolute values of the cells add up to less than \<open>2 ^ 53\<close> (pandas adds in 64-bit
  integers, which wrap around, or in floating point, which rounds; below that bound both
  are exact). The cells of the column \<open>Ground\<close> have no part in it: whatever is written into
  that column, the cards stay the same.
\<close>

theorem total_fatalities_is_air_sum:
  assumes "filtered_df df sel = Inr f"
    and "{''Fatalities (air)'', ''Country/Region'', ''Operator''} \<subseteq> set (columns df)"
    and "list_all numeric (column df ''Fatalities (air)'')"
    and "(\<Sum>r\<leftarrow>rows f. \<bar>case cell_at r ''Fatalities (air)'' of Num n \<Rightarrow> n | _ \<Rightarrow> 0\<bar>) < 2 ^ 53"
  shows "\<exists>m. metric_cards f = Inr m \<and>
           total_fatalities m =
             (\<Sum>r\<leftarrow>rows f. case cell_at r ''Fatalities (air)'' of Num n \<Rightarrow> n | _ \<Rightarrow> 0) \<and>
           (\<forall>g. metric_cards (assign ''Ground'' g f) = Inr m)"
proof -
  from assms(1) have cols: "columns f = columns df"
    using filtered_df_sub by blast
  with assms(2) have c: "''Fatalities (air)'' \<in> set (columns f)"
    "''Country/Region'' \<in> set (columns f)" "''Operator'' \<in> set (columns f)"
    by simp_all
  from assms(1,3) have n: "list_all numeric (column f ''Fatalities (air)'')"
    by (rule numeric_filtered)
  let ?s = "sum_list (map (\<lambda>c. case c of Num n \<Rightarrow> n | _ \<Rightarrow> 0) (column f ''Fatalities (air)''))"
  let ?m = "\<lparr>total_crashes = length (rows f), total_fatalities = ?s,
             countries_affected = nunique (column f ''Country/Region''),
             airlines_involved = nunique (column f ''Operator'')\<rparr>"
  have e: "?s = (\<Sum>r\<leftarrow>rows f. case cell_at r ''Fatalities (air)'' of Num n \<Rightarrow> n | _ \<Rightarrow> 0)"
    by (simp add: column_def o_def)
  have "\<bar>\<Sum>r\<leftarrow>rows f. case cell_at r ''Fatalities (air)'' of Num n \<Rightarrow> n | _ \<Rightarrow> 0\<bar> \<le>
        (\<Sum>r\<leftarrow>rows f. \<bar>case cell_at r ''Fatalities (air)'' of Num n \<Rightarrow> n | _ \<Rightarrow> 0\<bar>)"
    using sum_list_abs [of "map (\<lambda>r. case cell_at r ''Fatalities (air)'' of Num n \<Rightarrow> n | _ \<Rightarrow> 0) (rows f)"]
    by (simp add: o_def)
  with assms(4) e have "\<bar>?s\<bar> < 2 ^ 53"
    by (simp only:)
  then have "\<bar>?s\<bar> < 9007199254740992"
    by simp
  then have "- 9223372036854775808 \<le> ?s" "?s < 9223372036854775808"
    by linarith+
  then have i: "int64 ?s = ?s"
    by (rule int64_id)
  have m: "metric_cards f = Inr ?m"
    using c n i by (simp add: metric_cards_def bind_result_def getitem_def series_sum_def)
  have s: "total_fatalities ?m =
             (\<Sum>r\<leftarrow>rows f. case cell_at r ''Fatalities (air)'' of Num n \<Rightarrow> n | _ \<Rightarrow> 0)"
    using e by simp
  have "metric_cards (assign ''Ground'' g f) = metric_cards f" for g
    using c by (simp add: metric_cards_def getitem_assign_other rows_assign_length)
  with m have g: "metric_cards (assign ''Ground'' g f) = Inr ?m" for g
    by simp
  from m s g show ?thesis by blast
qed

theorem total_fatalities_is_air_sum_witness:
  "filtered_df crashes fifties = Inr fifties_view \<and>
   {''Fatalities (air)'', ''Country/Region'', ''Operator''} \<subseteq> set (columns crashes) \<and>
   list_all numeric (column crashes ''Fatalities (air)'') \<and>
   (\<Sum>r\<leftarrow>rows fifties_view. \<bar>case cell_at r ''Fatalities (air)'' of Num n \<Rightarrow> n | _ \<Rightarrow> 0\<bar>) = 19 \<and>
   (19 :: int) < 2 ^ 53 \<and>
   column fifties_view ''Fatalities (air)'' = [Num 7, NaN, Num 12] \<and>
   column fifties_view ''Ground'' = [Num 2, Num 30, NaN] \<and>
   (\<exists>m. metric_cards fifties_view = Inr m \<and> total_fatalities m = 19 \<and>
        metric_cards (assign ''Ground'' (\<lambda>r. Num 1000) fifties_view) = Inr m)"
proof -
  have f: "filtered_df crashes fifties = Inr fifties_view"
    by code_simp
  have c: "{''Fatalities (air)'', ''Country/Region'', ''Operator''} \<subseteq> set (columns crashes)"
    by code_simp
  have n: "list_all numeric (column crashes ''Fatalities (air)'')"
    by code_simp
  have a: "column fifties_view ''Fatalities (air)'' = [Num 7, NaN, Num 12]"
    and g: "column fifties_view ''Ground'' = [Num 2, Num 30, NaN]"
    by code_simp+
  have s: "(\<Sum>r\<leftarrow>rows fifties_view. case cell_at r ''Fatalities (air)'' of Num n \<Rightarrow> n | _ \<Rightarrow> 0) = 19"
    by code_simp
  have b: "(\<Sum>r\<leftarrow>rows fifties_view. \<bar>case cell_at r ''Fatalities (air)'' of Num n \<Rightarrow> n | _ \<Rightarrow> 0\<bar>) = 19"
    by code_simp
  have l: "(19 :: int) < 2 ^ 53"
    by simp
  from b l have h: "(\<Sum>r\<leftarrow>rows fifties_view. \<bar>case cell_at r ''Fatalities (air)'' of Num n \<Rightarrow> n | _ \<Rightarrow> 0\<bar>) < 2 ^ 53"
    by (simp only:)
  from total_fatalities_is_air_sum [OF f c n h] obtain m where
    m: "metric_cards fifties_view = Inr m \<and>
        total_fatalities m =
          (\<Sum>r\<leftarrow>rows fifties_view. case cell_at r ''Fatalities (air)'' of Num n \<Rightarrow> n | _ \<Rightarrow> 0) \<and>
        (\<forall>g. metric_cards (assign ''Ground'' g fifties_view) = Inr m)" ..
  from m have m1: "metric_cards fifties_view = Inr m"
    by (rule conjunct1)
  from m s have m2: "total_fatalities m = 19"
    by simp
  from m have "\<forall>g. metric_cards (assign ''Ground'' g fifties_view) = Inr m"
    by (elim conjE)
  then have m3: "metric_cards (assign ''Ground'' (\<lambda>r. Num 1000) fifties_view) = Inr m"
    by (rule spec)
  have x: "\<exists>m. metric_cards fifties_view = Inr m \<and> total_fatalities m = 19 \<and>
        metric_cards (assign ''Ground'' (\<lambda>r. Num 1000) fifties_view) = Inr m"
    by (rule exI [of _ m]) (intro conjI m1 m2 m3)
  show ?thesis
    by (intro conjI f c n b l a g x)
qed

end
